theory Spec2Isabelle
  imports Main
begin

section \<open>The session controller: component App\<close>

text \<open>
  The controller is the React component \<^verbatim>\<open>App\<close> (the third document of
  \<^verbatim>\<open>recent-analyses-sidebar.tsx\<close>, headed \<^verbatim>\<open>// fileName: App.tsx\<close>). Its state is
  five \<^verbatim>\<open>useState\<close> cells. A cell of type \<^verbatim>\<open>string | null\<close> is an option.
\<close>

type_synonym session_id = string

text \<open>
  The cell \<^verbatim>\<open>analysisResults\<close> holds \<^verbatim>\<open>null\<close> or what \<^verbatim>\<open>response.json()\<close> gave.
  The controller never inspects that value; it tests it for truthiness, and React compares
  it with \<^verbatim>\<open>Object.is\<close>. A parsed JSON value is falsy exactly when it is \<^verbatim>\<open>null\<close>,
  \<^verbatim>\<open>false\<close>, \<^verbatim>\<open>0\<close>, \<^verbatim>\<open>-0\<close> or \<^verbatim>\<open>""\<close>, and \<^verbatim>\<open>Object.is\<close> tells these five
  apart; every other value (an object such as the \<^verbatim>\<open>AnalysisResults\<close> bundle, an array, a
  non-empty string, another number, \<^verbatim>\<open>true\<close>) is truthy and is kept opaque, of a type
  parameter \<open>'r\<close>. Two truthy values are compared by their content: where React would see
  two objects of equal content as different, the effect below does nothing either way,
  since its condition asks for a falsy value.
\<close>

datatype 'r js_value = Null | JFalse | Zero | NegZero | EmptyString | Truthy 'r

definition is_truthy :: "'r js_value \<Rightarrow> bool" where
  "is_truthy v = (case v of Truthy r \<Rightarrow> True | _ \<Rightarrow> False)"

record 'r app_state =
  selectedBrand :: "string option"
  selectedSessionId :: "session_id option"
  analysisResults :: "'r js_value"
  isAnalyzing :: bool
  isFetchingResults :: bool

definition initial_app :: "'r app_state" where
  "initial_app =
     \<lparr>selectedBrand = None, selectedSessionId = None, analysisResults = Null,
      isAnalyzing = False, isFetchingResults = False\<rparr>"

text \<open>JavaScript truthiness of a \<^verbatim>\<open>string | null\<close>: null and the empty string are falsy.\<close>

definition truthy :: "string option \<Rightarrow> bool" where
  "truthy v = (case v of None \<Rightarrow> False | Some x \<Rightarrow> x \<noteq> [])"

subsection \<open>The handlers\<close>

definition handleAnalysisStart :: "session_id \<Rightarrow> 'r app_state \<Rightarrow> 'r app_state" where
  "handleAnalysisStart sessionId s =
     s\<lparr>selectedSessionId := Some sessionId, isAnalyzing := True,
       analysisResults := Null, isFetchingResults := False\<rparr>"

text \<open>
  The second argument of \<^verbatim>\<open>handleAnalysisSelect\<close> is an \<^verbatim>\<open>AnalysisSession | null\<close> of
  which only \<^verbatim>\<open>brand_name\<close> is read: it is given here as that name, if there is a session.
\<close>

definition handleAnalysisSelect ::
  "session_id \<Rightarrow> string option \<Rightarrow> 'r app_state \<Rightarrow> 'r app_state" where
  "handleAnalysisSelect sessionId analysis s =
     (let s1 = s\<lparr>analysisResults := Null, isAnalyzing := False,
                   selectedSessionId := Some sessionId\<rparr>
      in if truthy analysis \<and> analysis \<noteq> selectedBrand s
         then s1\<lparr>selectedBrand := analysis\<rparr> else s1)"

definition handleNewAnalysis :: "'r app_state \<Rightarrow> 'r app_state" where
  "handleNewAnalysis s =
     s\<lparr>analysisResults := Null, selectedSessionId := None,
       isAnalyzing := False, isFetchingResults := False\<rparr>"

definition handleResultsReady :: "'r js_value \<Rightarrow> 'r app_state \<Rightarrow> 'r app_state" where
  "handleResultsReady results s =
     s\<lparr>analysisResults := results, isAnalyzing := False, isFetchingResults := False\<rparr>"

subsection \<open>What is rendered\<close>

text \<open>
  The main content area renders four panels, each under its own condition, in this order:
  the \<^verbatim>\<open>AnalysisProgress\<close> component (the spec's view state Polling), the
  "Loading historical results..." spinner (ResolvingHistorical), the \<^verbatim>\<open>AnalysisForm\<close>
  (Idle) and the \<^verbatim>\<open>AnalysisResults\<close> dashboard (Completed).
\<close>

datatype panel = ProgressPanel | LoadingPanel | FormPanel | ResultsPanel

definition showsProgress :: "'r app_state \<Rightarrow> bool" where
  "showsProgress s =
     (isAnalyzing s \<and> truthy (selectedSessionId s) \<and> \<not> is_truthy (analysisResults s))"

definition showsLoading :: "'r app_state \<Rightarrow> bool" where
  "showsLoading s = (isFetchingResults s \<and> \<not> isAnalyzing s)"

definition showsForm :: "'r app_state \<Rightarrow> bool" where
  "showsForm s =
     (\<not> isAnalyzing s \<and> \<not> isFetchingResults s \<and> \<not> is_truthy (analysisResults s))"

definition showsResults :: "'r app_state \<Rightarrow> bool" where
  "showsResults s = (is_truthy (analysisResults s) \<and> truthy (selectedSessionId s))"

definition rendered :: "'r app_state \<Rightarrow> panel list" where
  "rendered s =
     (if showsProgress s then [ProgressPanel] else []) @
     (if showsLoading s then [LoadingPanel] else []) @
     (if showsForm s then [FormPanel] else []) @
     (if showsResults s then [ResultsPanel] else [])"

subsection \<open>The network, as the controller sees it\<close>

text \<open>
  \<^verbatim>\<open>fetch\<close> either rejects (a transport failure) or resolves with a response, of which
  the code reads \<^verbatim>\<open>ok\<close>, \<^verbatim>\<open>status\<close> and \<^verbatim>\<open>json()\<close>; \<^verbatim>\<open>json()\<close> rejects on a
  malformed body, which is \<open>None\<close> here. The body of a results response parses to a
  \<open>'r js_value\<close>; of the body of a status response the code reads the field
  \<^verbatim>\<open>status\<close> only, and \<open>None\<close> stands also for a body \<^verbatim>\<open>null\<close>, on which that read
  throws.
\<close>

datatype 'b response = Response (ok: bool) (http_status: nat) (json: "'b option")

datatype 'b fetched = Threw | Resolved "'b response"

text \<open>The \<^verbatim>\<open>AnalysisStatus\<close> of \<^verbatim>\<open>shared/schema\<close>.\<close>

record AnalysisStatus =
  session_id :: string
  status :: string
  progress :: int
  current_step :: string
  error :: "string option"

record 'r net =
  results_endpoint :: "session_id \<Rightarrow> 'r js_value fetched"
  status_endpoint :: "session_id \<Rightarrow> AnalysisStatus fetched"

datatype request = GetResults session_id | GetStatus session_id

subsection \<open>The effect that resolves a selected session\<close>

datatype 'r set_state =
    SetAnalysisResults "'r js_value"
  | SetIsAnalyzing bool
  | SetIsFetchingResults bool

fun apply_set :: "'r app_state \<Rightarrow> 'r set_state \<Rightarrow> 'r app_state" where
  "apply_set s (SetAnalysisResults v) = s\<lparr>analysisResults := v\<rparr>"
| "apply_set s (SetIsAnalyzing b) = s\<lparr>isAnalyzing := b\<rparr>"
| "apply_set s (SetIsFetchingResults b) = s\<lparr>isFetchingResults := b\<rparr>"

definition apply_sets :: "'r set_state list \<Rightarrow> 'r app_state \<Rightarrow> 'r app_state" where
  "apply_sets us s = foldl apply_set s us"

text \<open>What the \<^verbatim>\<open>catch\<close> block receives.\<close>

datatype probe_error =
    FetchRejected
  | JsonRejected
  | FailedToLoadResults nat

text \<open>
  One run of \<^verbatim>\<open>fetchExistingResults\<close> for the session id its closure captured: the
  requests it issues in order, the state setters it calls in order, and the error its
  \<^verbatim>\<open>catch\<close> block logs, if it is entered. Every setter call stands after the last
  \<^verbatim>\<open>await\<close> of its path, so the setters of one run are applied together, to the state
  current when the run settles.
\<close>

record 'r probe_run =
  issued :: "request list"
  updates :: "'r set_state list"
  caught :: "probe_error option"

definition catch_block :: "'r set_state list" where
  "catch_block = [SetAnalysisResults Null]"

definition finally_block :: "'r set_state list" where
  "finally_block = [SetIsFetchingResults False, SetIsAnalyzing False]"

definition thrown :: "request list \<Rightarrow> probe_error \<Rightarrow> 'r probe_run" where
  "thrown reqs e =
     \<lparr>issued = reqs, updates = catch_block @ finally_block, caught = Some e\<rparr>"

definition fetchExistingResults :: "'r net \<Rightarrow> session_id \<Rightarrow> 'r probe_run" where
  "fetchExistingResults n sid =
     (case results_endpoint n sid of
        Threw \<Rightarrow> thrown [GetResults sid] FetchRejected
      | Resolved response \<Rightarrow>
          if \<not> ok response then
            (case status_endpoint n sid of
               Threw \<Rightarrow> thrown [GetResults sid, GetStatus sid] FetchRejected
             | Resolved statusResponse \<Rightarrow>
                 (case json statusResponse of
                    None \<Rightarrow> thrown [GetResults sid, GetStatus sid] JsonRejected
                  | Some statusData \<Rightarrow>
                      if status statusData = ''running'' then
                        \<lparr>issued = [GetResults sid, GetStatus sid],
                         updates = [SetIsAnalyzing True, SetIsFetchingResults False]
                                   @ finally_block,
                         caught = None\<rparr>
                      else thrown [GetResults sid, GetStatus sid]
                             (FailedToLoadResults (http_status response))))
          else
            (case json response of
               None \<Rightarrow> thrown [GetResults sid] JsonRejected
             | Some results \<Rightarrow>
                 \<lparr>issued = [GetResults sid],
                  updates = [SetAnalysisResults results] @ finally_block,
                  caught = None\<rparr>))"

text \<open>
  The effect has the dependencies \<^verbatim>\<open>[selectedSessionId, isAnalyzing, analysisResults]\<close>
  and runs its body under the condition of its \<^verbatim>\<open>if\<close>.
\<close>

definition effect_condition :: "'r app_state \<Rightarrow> bool" where
  "effect_condition s =
     (truthy (selectedSessionId s) \<and> \<not> isAnalyzing s \<and> \<not> is_truthy (analysisResults s))"

definition deps_changed :: "'r app_state \<Rightarrow> 'r app_state \<Rightarrow> bool" where
  "deps_changed old new =
     (\<not> (selectedSessionId old = selectedSessionId new \<and> isAnalyzing old = isAnalyzing new
         \<and> analysisResults old = analysisResults new))"

subsection \<open>The controller with its probes in flight\<close>

text \<open>
  A run of \<^verbatim>\<open>fetchExistingResults\<close> is asynchronous: between the render that starts it
  and the moment it settles, handlers may run and further probes may start. The system
  state holds the component state, the session ids captured by the probes in flight
  (oldest first), and what the probes have reported so far: a bundle (a truthy value)
  handed to \<^verbatim>\<open>setAnalysisResults\<close> or an error logged by the \<^verbatim>\<open>catch\<close> block, each
  with the session id the probe was started for.
\<close>

datatype 'r report = ResultsDelivered session_id 'r | ErrorLogged session_id probe_error

record 'r sys =
  app :: "'r app_state"
  inflight :: "session_id list"
  reports :: "'r report list"

definition initial_sys :: "'r sys" where
  "initial_sys = \<lparr>app = initial_app, inflight = [], reports = []\<rparr>"

text \<open>
  After a render, the effect runs when one of its dependencies changed; under its
  condition it sets \<^verbatim>\<open>isFetchingResults\<close> and starts a probe for the session id of
  that render.
\<close>

definition run_effect :: "'r app_state \<Rightarrow> 'r app_state \<Rightarrow> 'r sys \<Rightarrow> 'r sys" where
  "run_effect old new \<sigma> =
     (case selectedSessionId new of
        None \<Rightarrow> \<sigma>\<lparr>app := new\<rparr>
      | Some sid \<Rightarrow>
          if deps_changed old new \<and> effect_condition new
          then \<sigma>\<lparr>app := new\<lparr>isFetchingResults := True\<rparr>, inflight := inflight \<sigma> @ [sid]\<rparr>
          else \<sigma>\<lparr>app := new\<rparr>)"

definition probe_reports :: "session_id \<Rightarrow> 'r probe_run \<Rightarrow> 'r report list" where
  "probe_reports sid run =
     (case caught run of
        Some e \<Rightarrow> [ErrorLogged sid e]
      | None \<Rightarrow> concat (map (\<lambda>u. case u of SetAnalysisResults (Truthy r) \<Rightarrow> [ResultsDelivered sid r]
                                      | _ \<Rightarrow> []) (updates run)))"

datatype 'r event =
    Select session_id "string option"
  | Start session_id
  | NewAnalysis
  | Settle nat
  | ResultsReady 'r

text \<open>
  \<open>Select\<close>, \<open>Start\<close> and \<open>NewAnalysis\<close> are the three handlers; \<open>Settle k\<close> is the
  \<open>k\<close>-th probe in flight settling against the network \<open>n\<close>; \<open>ResultsReady r\<close> is the
  mounted \<^verbatim>\<open>AnalysisProgress\<close> calling \<^verbatim>\<open>onComplete\<close>, which it does with a truthy
  value only.
\<close>

fun step :: "'r net \<Rightarrow> 'r sys \<Rightarrow> 'r event \<Rightarrow> 'r sys" where
  "step n \<sigma> (Select sid analysis) =
     run_effect (app \<sigma>) (handleAnalysisSelect sid analysis (app \<sigma>)) \<sigma>"
| "step n \<sigma> (Start sid) = run_effect (app \<sigma>) (handleAnalysisStart sid (app \<sigma>)) \<sigma>"
| "step n \<sigma> NewAnalysis = run_effect (app \<sigma>) (handleNewAnalysis (app \<sigma>)) \<sigma>"
| "step n \<sigma> (Settle k) =
     (if k < length (inflight \<sigma>) then
        (let sid = inflight \<sigma> ! k;
             run = fetchExistingResults n sid;
             \<sigma>' = \<sigma>\<lparr>inflight := take k (inflight \<sigma>) @ drop (Suc k) (inflight \<sigma>),
                      reports := reports \<sigma> @ probe_reports sid run\<rparr>
         in run_effect (app \<sigma>) (apply_sets (updates run) (app \<sigma>)) \<sigma>')
      else \<sigma>)"
| "step n \<sigma> (ResultsReady r) =
     (if showsProgress (app \<sigma>)
      then run_effect (app \<sigma>) (handleResultsReady (Truthy r) (app \<sigma>)) \<sigma> else \<sigma>)"

definition run_events :: "'r net \<Rightarrow> 'r event list \<Rightarrow> 'r sys \<Rightarrow> 'r sys" where
  "run_events n evs \<sigma> = foldl (step n) \<sigma> evs"

section \<open>The polling controller: component AnalysisProgress\<close>

text \<open>
  \<^verbatim>\<open>AnalysisProgress\<close> (\<^verbatim>\<open>part_006\<close>) tracks one session with two TanStack Query
  queries, keyed \<^verbatim>\<open>["/api/analysis/status", sessionId]\<close> and
  \<^verbatim>\<open>["/api/results", sessionId]\<close>, and one \<^verbatim>\<open>useState\<close> cell \<^verbatim>\<open>showError\<close>. Neither
  query names a query function: the client's default one (\<^verbatim>\<open>lib/queryClient\<close>) is used,
  and is a parameter here: a call of it resolves with the data or rejects with a message.
\<close>

datatype 'a settled = Succeeded 'a | Rejected string

subsection \<open>One fetch of a query, with its retries\<close>

text \<open>
  Both queries set \<^verbatim>\<open>retry: 3\<close>. In TanStack Query a fetch counts its failures from
  zero; when a call of the query function rejects, the fetch calls it again if
  \<^verbatim>\<open>failureCount < retry\<close>, adding one to the count, and otherwise rejects with that
  error. \<open>queryFn k\<close> is the outcome of the call number \<open>k\<close> (from 0) of the query
  function; the result is the outcome of the fetch and the number of calls made so far.
\<close>

function retryer :: "nat \<Rightarrow> (nat \<Rightarrow> 'a settled) \<Rightarrow> nat \<Rightarrow> nat \<Rightarrow> 'a settled \<times> nat" where
  "retryer retry queryFn failureCount calls =
     (case queryFn calls of
        Succeeded d \<Rightarrow> (Succeeded d, Suc calls)
      | Rejected e \<Rightarrow>
          if failureCount < retry
          then retryer retry queryFn (Suc failureCount) (Suc calls)
          else (Rejected e, Suc calls))"
  by pat_completeness auto
termination
  by (relation "measure (\<lambda>(retry, queryFn, failureCount, calls). retry - failureCount)") auto

declare retryer.simps [simp del]

definition fetch_status :: "(nat \<Rightarrow> AnalysisStatus settled) \<Rightarrow> AnalysisStatus settled \<times> nat" where
  "fetch_status queryFn = retryer 3 queryFn 0 0"

subsection \<open>The component's state and what it derives from it\<close>

text \<open>
  \<open>statusData\<close> and \<open>resultsData\<close> are the \<^verbatim>\<open>data\<close> of the two queries (the source binds
  them to \<^verbatim>\<open>status\<close> and \<^verbatim>\<open>results\<close>), \<open>None\<close> while \<^verbatim>\<open>undefined\<close>; the data of the
  results query is whatever the body parsed to. \<open>statusError\<close> and \<open>resultsError\<close> are their
  \<^verbatim>\<open>error\<close>, given by its message. \<open>happened\<close> records, in order, what the component
  did: the fetches it asked for, the status snapshots it took, the timer it set, the
  toasts it showed, the calls of \<^verbatim>\<open>onComplete\<close>, and the clicks on its retry button.
\<close>

datatype 'r happening =
    StatusRequested
  | StatusAccepted AnalysisStatus
  | StatusScheduled nat
  | ResultsRequested
  | Toast string string
  | OnComplete 'r
  | RetryClicked

record 'r progress_state =
  statusData :: "AnalysisStatus option"
  statusError :: "string option"
  resultsData :: "'r js_value option"
  resultsError :: "string option"
  showError :: bool
  happened :: "'r happening list"

text \<open>\<^verbatim>\<open>status?.status === "completed"\<close>\<close>

definition is_completed :: "AnalysisStatus option \<Rightarrow> bool" where
  "is_completed data = (case data of None \<Rightarrow> False | Some d \<Rightarrow> status d = ''completed'')"

definition refetchInterval :: "AnalysisStatus option \<Rightarrow> bool \<Rightarrow> nat option" where
  "refetchInterval data showErr = (if is_completed data \<or> showErr then None else Some 2000)"

definition status_enabled :: "session_id \<Rightarrow> bool \<Rightarrow> bool" where
  "status_enabled sessionId showErr = (sessionId \<noteq> [] \<and> \<not> showErr)"

definition results_enabled :: "session_id \<Rightarrow> AnalysisStatus option \<Rightarrow> bool \<Rightarrow> bool" where
  "results_enabled sessionId data showErr =
     (sessionId \<noteq> [] \<and> is_completed data \<and> \<not> showErr)"

text \<open>
  \<^verbatim>\<open>const progress = status?.progress ?? 0\<close>, the value of the progress bar; the
  percentage beside it is \<^verbatim>\<open>Math.round(progress)\<close>, the same number for the integer
  progress of the data model.
\<close>

definition progress_value :: "'r progress_state \<Rightarrow> int" where
  "progress_value st = (case statusData st of None \<Rightarrow> 0 | Some d \<Rightarrow> progress d)"

text \<open>Truthiness of an \<^verbatim>\<open>Error | null\<close>.\<close>

definition is_set :: "'a option \<Rightarrow> bool" where
  "is_set v = (v \<noteq> None)"

definition hasError :: "'r progress_state \<Rightarrow> bool" where
  "hasError st = ((is_set (statusError st) \<or> is_set (resultsError st)) \<and> showError st)"

text \<open>\<^verbatim>\<open>message || fallback\<close>\<close>

definition or_else :: "string \<Rightarrow> string \<Rightarrow> string" where
  "or_else m fallback = (if m = [] then fallback else m)"

subsection \<open>Renders, effects and events\<close>

definition mount :: "session_id \<Rightarrow> 'r progress_state" where
  "mount sessionId =
     \<lparr>statusData = None, statusError = None, resultsData = None, resultsError = None,
      showError = False,
      happened = (if status_enabled sessionId False then [StatusRequested] else [])\<rparr>"

text \<open>
  What follows a render \<open>new\<close> that replaces the render \<open>old\<close>. The results query starts
  its fetch when its \<^verbatim>\<open>enabled\<close> option turns true. Then the three effects run in the
  order of the source, each on the values of the render: the two error effects set
  \<^verbatim>\<open>showError\<close> and show a toast; the completion effect, whose dependencies are the two
  data values (and the callback), calls \<^verbatim>\<open>onComplete\<close> if the results are truthy and the
  status is completed.
\<close>

definition commit ::
  "session_id \<Rightarrow> 'r progress_state \<Rightarrow> 'r progress_state \<Rightarrow> 'r progress_state" where
  "commit sessionId old new =
     (let fetchResults =
            (results_enabled sessionId (statusData new) (showError new)
             \<and> \<not> results_enabled sessionId (statusData old) (showError old));
          statusFailed = (statusError new \<noteq> None \<and> \<not> showError new);
          resultsFailed = (resultsError new \<noteq> None \<and> \<not> showError new);
          completed =
            (is_completed (statusData new)
             \<and> \<not> (resultsData old = resultsData new \<and> statusData old = statusData new))
      in new\<lparr>showError := (showError new \<or> statusFailed \<or> resultsFailed),
              happened := happened new
                @ (if fetchResults then [ResultsRequested] else [])
                @ (case statusError new of
                     Some m \<Rightarrow> if statusFailed
                       then [Toast ''Connection Error''
                               (or_else m ''Unable to connect to analysis service'')]
                       else []
                   | None \<Rightarrow> [])
                @ (case resultsError new of
                     Some m \<Rightarrow> if resultsFailed
                       then [Toast ''Failed to Load Results''
                               (or_else m ''Could not retrieve analysis results'')]
                       else []
                   | None \<Rightarrow> [])
                @ (case resultsData new of
                     Some (Truthy r) \<Rightarrow> if completed then [OnComplete r] else []
                   | _ \<Rightarrow> [])\<rparr>)"

text \<open>
  After a status fetch has succeeded, the status query sets its timer to what
  \<^verbatim>\<open>refetchInterval\<close> returns, while it is enabled.
\<close>

definition schedule :: "session_id \<Rightarrow> 'r progress_state \<Rightarrow> 'r progress_state" where
  "schedule sessionId st =
     (case refetchInterval (statusData st) (showError st) of
        None \<Rightarrow> st
      | Some ms \<Rightarrow>
          if status_enabled sessionId (showError st)
          then st\<lparr>happened := happened st @ [StatusScheduled ms]\<rparr> else st)"

text \<open>
  The events: a fetch of the status query or of the results query settles (after its
  retries), tagged with the session id of its query key; the user clicks "Retry
  Connection". A fetch whose key holds another session id belongs to another query and
  does not reach this component. \<^verbatim>\<open>handleRetry\<close> clears \<^verbatim>\<open>showError\<close>, removes both
  queries from the cache (their data and errors are gone) and refetches the status; its
  call of \<^verbatim>\<open>refetchResults\<close> after a completed status is the fetch that the results query
  starts when that status enables it. The button that calls it is rendered only under
  \<open>hasError\<close>; the handler itself asks for nothing, and the event is taken in any state.
\<close>

datatype 'r progress_event =
    StatusSettled session_id "AnalysisStatus settled"
  | ResultsSettled session_id "'r js_value settled"
  | RetryClick

fun progress_step ::
  "session_id \<Rightarrow> 'r progress_state \<Rightarrow> 'r progress_event \<Rightarrow> 'r progress_state" where
  "progress_step sessionId st (StatusSettled tag (Succeeded d)) =
     (if tag \<noteq> sessionId then st
      else schedule sessionId
             (commit sessionId st
                (st\<lparr>statusData := Some d, statusError := None,
                    happened := happened st @ [StatusAccepted d]\<rparr>)))"
| "progress_step sessionId st (StatusSettled tag (Rejected e)) =
     (if tag \<noteq> sessionId then st
      else commit sessionId st (st\<lparr>statusError := Some e\<rparr>))"
| "progress_step sessionId st (ResultsSettled tag (Succeeded r)) =
     (if tag \<noteq> sessionId then st
      else commit sessionId st (st\<lparr>resultsData := Some r, resultsError := None\<rparr>))"
| "progress_step sessionId st (ResultsSettled tag (Rejected e)) =
     (if tag \<noteq> sessionId then st
      else commit sessionId st (st\<lparr>resultsError := Some e\<rparr>))"
| "progress_step sessionId st RetryClick =
     commit sessionId st
       (st\<lparr>statusData := None, statusError := None, resultsData := None,
           resultsError := None, showError := False,
           happened := happened st @ [RetryClicked, StatusRequested]\<rparr>)"

definition run_progress :: "session_id \<Rightarrow> 'r progress_event list \<Rightarrow> 'r progress_state" where
  "run_progress sessionId evs = foldl (progress_step sessionId) (mount sessionId) evs"

subsection \<open>Reading the record of a run\<close>

text \<open>
  The snapshot most recently taken in the current polling run (a click on the retry
  button clears the cached status and begins a new run), and whether a failure has been
  surfaced in it, as they stand after a record of happenings.
\<close>

fun snapshot_after :: "AnalysisStatus option \<Rightarrow> 'r happening \<Rightarrow> AnalysisStatus option" where
  "snapshot_after snap (StatusAccepted d) = Some d"
| "snapshot_after snap RetryClicked = None"
| "snapshot_after snap h = snap"

fun surfaced_after :: "bool \<Rightarrow> 'r happening \<Rightarrow> bool" where
  "surfaced_after b (Toast title description) = True"
| "surfaced_after b RetryClicked = False"
| "surfaced_after b h = b"

definition latest_snapshot :: "'r happening list \<Rightarrow> AnalysisStatus option" where
  "latest_snapshot tr = foldl snapshot_after None tr"

definition error_surfaced :: "'r happening list \<Rightarrow> bool" where
  "error_surfaced tr = foldl surfaced_after False tr"

text \<open>
  A record is gated when each request for the results stands where the latest snapshot
  is a completed one and no failure is surfaced.
\<close>

fun gated :: "AnalysisStatus option \<Rightarrow> bool \<Rightarrow> 'r happening list \<Rightarrow> bool" where
  "gated snap err [] = True"
| "gated snap err (h # tr) =
     ((case h of ResultsRequested \<Rightarrow> is_completed snap \<and> \<not> err | _ \<Rightarrow> True)
      \<and> gated (snapshot_after snap h) (surfaced_after err h) tr)"

definition tracked :: "'r progress_state \<Rightarrow> bool" where
  "tracked st =
     (statusData st = latest_snapshot (happened st)
      \<and> showError st = error_surfaced (happened st)
      \<and> gated None False (happened st))"

text \<open>
  Read off the events alone, for a session: the snapshot most recently accepted (the data
  of the last successful status fetch whose key carries the session's id), and the same
  counted from the last click on the retry button.
\<close>

fun accept ::
  "session_id \<Rightarrow> AnalysisStatus option \<Rightarrow> 'r progress_event \<Rightarrow> AnalysisStatus option" where
  "accept sessionId acc (StatusSettled tag (Succeeded d)) =
     (if tag = sessionId then Some d else acc)"
| "accept sessionId acc ev = acc"

definition last_accepted :: "session_id \<Rightarrow> 'r progress_event list \<Rightarrow> AnalysisStatus option" where
  "last_accepted sessionId evs = foldl (accept sessionId) None evs"

fun accept_since_retry ::
  "session_id \<Rightarrow> AnalysisStatus option \<Rightarrow> 'r progress_event \<Rightarrow> AnalysisStatus option" where
  "accept_since_retry sessionId acc (StatusSettled tag (Succeeded d)) =
     (if tag = sessionId then Some d else acc)"
| "accept_since_retry sessionId acc RetryClick = None"
| "accept_since_retry sessionId acc ev = acc"

definition accepted_since_retry ::
  "session_id \<Rightarrow> 'r progress_event list \<Rightarrow> AnalysisStatus option" where
  "accepted_since_retry sessionId evs = foldl (accept_since_retry sessionId) None evs"

subsection \<open>Concrete runs\<close>

text \<open>A status body as the service sends it.\<close>

definition status_body :: "session_id \<Rightarrow> string \<Rightarrow> int \<Rightarrow> AnalysisStatus" where
  "status_body sid st p =
     \<lparr>session_id = sid, status = st, progress = p, current_step = ''Querying LLMs'',
      error = None\<rparr>"

text \<open>The status endpoint is down: every call of the query function rejects.\<close>

definition always_rejecting :: "nat \<Rightarrow> AnalysisStatus settled" where
  "always_rejecting k = Rejected ''Failed to fetch''"

text \<open>Three calls reject, the fourth finds the job running.\<close>

definition rejecting_thrice :: "nat \<Rightarrow> AnalysisStatus settled" where
  "rejecting_thrice k =
     (if k < 3 then Rejected ''Failed to fetch''
      else Succeeded (status_body ''s3'' ''running'' 10))"

text \<open>The service reports a failed job.\<close>

definition errored_snapshot :: AnalysisStatus where
  "errored_snapshot =
     \<lparr>session_id = ''s7'', status = ''error'', progress = 40,
      current_step = ''Querying LLMs'', error = Some ''LLM quota exceeded''\<rparr>"

text \<open>Three status fetches in a row find the failed job.\<close>

definition errored_polls :: "string progress_event list" where
  "errored_polls = replicate 3 (StatusSettled ''s7'' (Succeeded errored_snapshot))"

text \<open>
  Scenario 1 of the specification, with a status for another session arriving in between
  and the progress going back from 55 to 30.
\<close>

definition scenario1 :: "string progress_event list" where
  "scenario1 =
     [StatusSettled ''s1'' (Succeeded (status_body ''s1'' ''running'' 10)),
      StatusSettled ''s1'' (Succeeded (status_body ''s1'' ''running'' 55)),
      StatusSettled ''s0'' (Succeeded (status_body ''s0'' ''running'' 90)),
      StatusSettled ''s1'' (Succeeded (status_body ''s1'' ''running'' 30))]"

definition scenario1_completed :: "string progress_event list" where
  "scenario1_completed =
     scenario1 @
     [StatusSettled ''s1'' (Succeeded (status_body ''s1'' ''completed'' 100)),
      ResultsSettled ''s1'' (Succeeded (Truthy ''foobar''))]"

text \<open>
  A snapshot at 55 percent is accepted, the next status fetch is rejected, and the user
  clicks "Retry Connection".
\<close>

definition retried :: "string progress_event list" where
  "retried =
     [StatusSettled ''s1'' (Succeeded (status_body ''s1'' ''running'' 55)),
      StatusSettled ''s1'' (Rejected ''Failed to fetch''),
      RetryClick]"

section \<open>The invalidation notifier: component ReanalyzeButton\<close>

text \<open>
  The page holds the controller and TanStack Query's client. Of the client the model
  keeps the cached reads: each has the key its \<^verbatim>\<open>useQuery\<close> gave it, an array whose
  elements are written as strings here, and the mark \<^verbatim>\<open>isInvalidated\<close>, under which
  the next read refetches. The toasts shown are kept as (title, description) pairs.
\<close>

record cached_read =
  queryKey :: "string list"
  isInvalidated :: bool

record 'r page =
  controller :: "'r app_state"
  reads :: "cached_read list"
  toasts :: "(string \<times> string) list"

record ReanalyzeResponse =
  new_session_id :: string
  message :: string
  reanalyze_status :: string

text \<open>
  \<^verbatim>\<open>invalidateQueries({ queryKey: k })\<close> marks every cached read whose key begins with the
  elements of \<open>k\<close>.
\<close>

definition key_matches :: "string list \<Rightarrow> cached_read \<Rightarrow> bool" where
  "key_matches filterKey q = (take (length filterKey) (queryKey q) = filterKey)"

definition invalidateQueries :: "string list \<Rightarrow> 'r page \<Rightarrow> 'r page" where
  "invalidateQueries filterKey p =
     p\<lparr>reads := map (\<lambda>q. if key_matches filterKey q then q\<lparr>isInvalidated := True\<rparr> else q)
                     (reads p)\<rparr>"

definition toast :: "string \<Rightarrow> string \<Rightarrow> 'r page \<Rightarrow> 'r page" where
  "toast title description p = p\<lparr>toasts := toasts p @ [(title, description)]\<rparr>"

text \<open>
  \<^verbatim>\<open>onSuccess\<close> of \<^verbatim>\<open>reanalyzeMutation\<close>. The optional prop \<^verbatim>\<open>onReanalyzeStart\<close> is a
  callback into the parent; it acts on the controller's state.
\<close>

definition onSuccess ::
  "('r app_state \<Rightarrow> 'r app_state) option \<Rightarrow> ReanalyzeResponse \<Rightarrow> 'r page \<Rightarrow> 'r page" where
  "onSuccess onReanalyzeStart data p =
     (let p1 = toast ''Re-analysis started''
                 (''New session: '' @ take 8 (new_session_id data) @ ''...'') p;
          p2 = (case onReanalyzeStart of
                  None \<Rightarrow> p1
                | Some f \<Rightarrow> p1\<lparr>controller := f (controller p1)\<rparr>);
          p3 = invalidateQueries [''same-prompts-history''] p2;
          p4 = invalidateQueries [''recent-analyses''] p3
      in invalidateQueries [''visibility-history''] p4)"

text \<open>What the three calls of \<^verbatim>\<open>invalidateQueries\<close> in \<^verbatim>\<open>onSuccess\<close> do to one cached read.\<close>

definition after_three :: "cached_read \<Rightarrow> cached_read" where
  "after_three q =
     (if key_matches [''same-prompts-history''] q \<or> key_matches [''recent-analyses''] q
         \<or> key_matches [''visibility-history''] q
      then q\<lparr>isInvalidated := True\<rparr> else q)"

text \<open>
  \<^verbatim>\<open>AnalysisResults\<close> (\<^verbatim>\<open>part_008\<close>) is the one place that renders the button:
  \<^verbatim>\<open><ReanalyzeButton sessionId={sessionId} onReanalyzeStart={onNewAnalysis} />\<close>, and
  \<^verbatim>\<open>App\<close> renders \<^verbatim>\<open>AnalysisResults\<close> with \<^verbatim>\<open>onNewAnalysis={handleNewAnalysis}\<close>.
\<close>

definition reanalyze_succeeds :: "ReanalyzeResponse \<Rightarrow> 'r page \<Rightarrow> 'r page" where
  "reanalyze_succeeds data p = onSuccess (Some handleNewAnalysis) data p"

text \<open>
  The reads that the specification's three groups stand for, by the first element of
  their keys as the components under \<^verbatim>\<open>src/\<close> and the notifier write them: the history
  of a session's prompts, the lists of recent sessions (of the sidebar and of the form),
  and the visibility series.
\<close>

definition group_keys :: "string list" where
  "group_keys =
     [''same-prompts-history'', ''recent-analyses'', ''/api/recent-analyses'',
      ''visibility-history'', ''main-visibility-history'']"

definition in_a_group :: "cached_read \<Rightarrow> bool" where
  "in_a_group q = list_ex (\<lambda>k. key_matches [k] q) group_keys"

text \<open>
  A page that shows the bundle of session \<open>s1\<close> of the brand Acme, with the reads that
  its components have cached: the brand list, the sidebar's and the form's lists of
  recent sessions, and the two series of \<^verbatim>\<open>DualVisibilityCharts\<close>.
\<close>

definition fresh :: "string list \<Rightarrow> cached_read" where
  "fresh k = \<lparr>queryKey = k, isInvalidated = False\<rparr>"

definition page_with_results :: "string page" where
  "page_with_results =
     \<lparr>controller =
        \<lparr>selectedBrand = Some ''Acme'', selectedSessionId = Some ''s1'',
         analysisResults = Truthy ''bundle of s1'', isAnalyzing = False,
         isFetchingResults = False\<rparr>,
      reads =
        [fresh [''brands''],
         fresh [''recent-analyses'', ''Acme''],
         fresh [''/api/recent-analyses''],
         fresh [''main-visibility-history'', ''Acme'', [], ''false''],
         fresh [''same-prompts-history'', ''s1'']],
      toasts = []\<rparr>"

definition reanalyze_reply :: ReanalyzeResponse where
  "reanalyze_reply =
     \<lparr>new_session_id = ''0123456789abcdef'', message = ''started'',
      reanalyze_status = ''processing''\<rparr>"

subsection \<open>Concrete networks\<close>

text \<open>Every session has its bundle ready: the results endpoint answers 200 with it.\<close>

definition net_ready :: "string net" where
  "net_ready =
     \<lparr>results_endpoint =
        (\<lambda>sid. Resolved (Response True 200 (Some (Truthy (''bundle of '' @ sid))))),
      status_endpoint = (\<lambda>sid. Resolved (Response True 200 (Some (status_body sid ''completed'' 100))))\<rparr>"

text \<open>
  No bundle yet: the results endpoint answers 404, the status endpoint reports a running
  job at 40 percent (scenario 2 of the specification).
\<close>

definition net_running :: "string net" where
  "net_running =
     \<lparr>results_endpoint = (\<lambda>sid. Resolved (Response False 404 None)),
      status_endpoint = (\<lambda>sid. Resolved (Response True 200 (Some (status_body sid ''running'' 40))))\<rparr>"

text \<open>The service is unreachable: every \<^verbatim>\<open>fetch\<close> rejects.\<close>

definition net_down :: "string net" where
  "net_down = \<lparr>results_endpoint = (\<lambda>sid. Threw), status_endpoint = (\<lambda>sid. Threw)\<rparr>"


text \<open>The state after a brand was chosen in the brand selector: the sidebar is rendered.\<close>

definition brand_chosen :: "string sys" where
  "brand_chosen = initial_sys\<lparr>app := initial_app\<lparr>selectedBrand := Some ''Acme''\<rparr>\<rparr>"

section \<open>Properties of the session controller\<close>

lemmas handler_defs =
  handleAnalysisStart_def handleAnalysisSelect_def handleNewAnalysis_def handleResultsReady_def

lemmas panel_defs =
  rendered_def showsProgress_def showsLoading_def showsForm_def showsResults_def truthy_def
  is_truthy_def

lemmas probe_defs =
  fetchExistingResults_def thrown_def catch_block_def finally_block_def apply_sets_def





lemma probe_never_leaves_analyzing:
  "\<not> isAnalyzing (apply_sets (updates (fetchExistingResults n sid)) s)"
  by (simp add: probe_defs split: fetched.splits option.splits)






text \<open>
  C2, at the input of scenario 2: the results probe answers 404 and the status probe
  reports a running job. The branch for a running job calls \<^verbatim>\<open>setIsAnalyzing(true)\<close> and
  returns, but the \<^verbatim>\<open>finally\<close> block of the same \<^verbatim>\<open>try\<close> runs after it and calls
  \<^verbatim>\<open>setIsAnalyzing(false)\<close>: when the resolver has settled, \<^verbatim>\<open>AnalysisProgress\<close> is not
  mounted and the form is shown; nothing was logged as an error.
\<close>

theorem selectExisting_running_ends_in_form:
  "issued (fetchExistingResults net_running ''s2'') = [GetResults ''s2'', GetStatus ''s2'']
   \<and> updates (fetchExistingResults net_running ''s2'') =
        [SetIsAnalyzing True, SetIsFetchingResults False,
         SetIsFetchingResults False, SetIsAnalyzing False]
   \<and> rendered (app (run_events net_running [Select ''s2'' None] initial_sys)) = [LoadingPanel]
   \<and> rendered (app (run_events net_running [Select ''s2'' None, Settle 0] initial_sys))
       = [FormPanel]
   \<and> isAnalyzing (app (run_events net_running [Select ''s2'' None, Settle 0] initial_sys))
       = False
   \<and> inflight (run_events net_running [Select ''s2'' None, Settle 0] initial_sys) = []
   \<and> reports (run_events net_running [Select ''s2'' None, Settle 0] initial_sys) = []"
  by (simp add: run_events_def net_running_def status_body_def initial_sys_def initial_app_def
      run_effect_def effect_condition_def deps_changed_def probe_reports_def
      handler_defs panel_defs probe_defs Let_def)

text \<open>
  C8. \<^verbatim>\<open>handleNewAnalysis\<close> is the reset. Calling it twice in a row gives the state
  that calling it once gives, with its render and effect: the session id and the stored
  bundle are cleared, the form is the only panel, and \<^verbatim>\<open>AnalysisProgress\<close>, which owns
  the poll timer, is not mounted.
\<close>

theorem reset_idempotent:
  "step n (step n \<sigma> NewAnalysis) NewAnalysis = step n \<sigma> NewAnalysis
   \<and> handleNewAnalysis (handleNewAnalysis s) = handleNewAnalysis s
   \<and> selectedSessionId (app (step n \<sigma> NewAnalysis)) = None
   \<and> analysisResults (app (step n \<sigma> NewAnalysis)) = Null
   \<and> rendered (app (step n \<sigma> NewAnalysis)) = [FormPanel]
   \<and> showsProgress (app (step n \<sigma> NewAnalysis)) = False"
  by (simp add: run_effect_def handleNewAnalysis_def panel_defs)

text \<open>
  C5, at a failing input: session \<open>A\<close> is selected, then session \<open>B\<close> while the probe
  for \<open>A\<close> is in flight, then the probe for \<open>A\<close> settles. The resolver's setters carry no
  session tag and are applied to the state current when it settles. When \<open>A\<close>'s bundle is
  ready, the settling stores \<open>A\<close>'s bundle under the current session \<open>B\<close> and replaces the
  loading panel by the results dashboard; when \<open>A\<close>'s probe fails, it clears
  \<^verbatim>\<open>isFetchingResults\<close> and replaces \<open>B\<close>'s loading panel by the form, while the probe
  for \<open>B\<close> is still in flight. The same happens when both sessions are selected in the
  sidebar, which stays on the page while a probe is in flight.
\<close>

theorem stale_probe_mutates_current_session:
  "selectedSessionId (app (run_events net_ready [Select ''A'' None, Select ''B'' None] initial_sys))
     = Some ''B''
   \<and> inflight (run_events net_ready [Select ''A'' None, Select ''B'' None] initial_sys)
       = [''A'', ''B'']
   \<and> analysisResults (app (run_events net_ready [Select ''A'' None, Select ''B'' None]
         initial_sys)) = Null
   \<and> rendered (app (run_events net_ready [Select ''A'' None, Select ''B'' None] initial_sys))
       = [LoadingPanel]
   \<and> selectedSessionId (app (run_events net_ready [Select ''A'' None, Select ''B'' None, Settle 0]
         initial_sys)) = Some ''B''
   \<and> analysisResults (app (run_events net_ready [Select ''A'' None, Select ''B'' None, Settle 0]
         initial_sys)) = Truthy ''bundle of A''
   \<and> rendered (app (run_events net_ready [Select ''A'' None, Select ''B'' None, Settle 0]
         initial_sys)) = [ResultsPanel]
   \<and> inflight (run_events net_down [Select ''A'' None, Select ''B'' None, Settle 0] initial_sys)
       = [''B'']
   \<and> rendered (app (run_events net_down [Select ''A'' None, Select ''B'' None, Settle 0]
         initial_sys)) = [FormPanel]
   \<and> rendered (app (run_events net_ready
         [Select ''A'' (Some ''Acme''), Select ''B'' (Some ''Acme'')] brand_chosen))
       = [LoadingPanel]
   \<and> selectedSessionId (app (run_events net_ready
         [Select ''A'' (Some ''Acme''), Select ''B'' (Some ''Acme''), Settle 0] brand_chosen))
       = Some ''B''
   \<and> analysisResults (app (run_events net_ready
         [Select ''A'' (Some ''Acme''), Select ''B'' (Some ''Acme''), Settle 0] brand_chosen))
       = Truthy ''bundle of A''
   \<and> rendered (app (run_events net_ready
         [Select ''A'' (Some ''Acme''), Select ''B'' (Some ''Acme''), Settle 0] brand_chosen))
       = [ResultsPanel]"
  by (simp add: run_events_def net_ready_def net_down_def initial_sys_def initial_app_def
      brand_chosen_def run_effect_def effect_condition_def deps_changed_def probe_reports_def
      handler_defs panel_defs probe_defs Let_def)

text \<open>
  C6, at a failing input, by the same defect as C5 (the resolver applies its outcome
  without comparing its session id with the current one): \<open>A\<close> is selected, then \<open>B\<close>, then
  both probes settle. Nothing has been reported when \<open>B\<close> is accepted; after it, two
  bundles are delivered, the first of them for the superseded session \<open>A\<close>. The same
  happens when both sessions are selected in the sidebar.
\<close>

theorem superseded_session_reports_completion:
  "reports (run_events net_ready [Select ''A'' None, Select ''B'' None] initial_sys) = []
   \<and> reports (run_events net_ready [Select ''A'' None, Select ''B'' None, Settle 0, Settle 0]
        initial_sys)
       = [ResultsDelivered ''A'' ''bundle of A'', ResultsDelivered ''B'' ''bundle of B'']
   \<and> selectedSessionId (app (run_events net_ready
        [Select ''A'' None, Select ''B'' None, Settle 0, Settle 0] initial_sys)) = Some ''B''
   \<and> reports (run_events net_ready
        [Select ''A'' (Some ''Acme''), Select ''B'' (Some ''Acme'')] brand_chosen) = []
   \<and> reports (run_events net_ready
        [Select ''A'' (Some ''Acme''), Select ''B'' (Some ''Acme''), Settle 0, Settle 0]
        brand_chosen)
       = [ResultsDelivered ''A'' ''bundle of A'', ResultsDelivered ''B'' ''bundle of B'']"
  by (simp add: run_events_def net_ready_def initial_sys_def initial_app_def brand_chosen_def
      run_effect_def effect_condition_def deps_changed_def probe_reports_def
      handler_defs panel_defs probe_defs Let_def)

subsection \<open>The invalidation notifier\<close>

lemma invalidate_keeps_keys:
  "map queryKey (reads (invalidateQueries k p)) = map queryKey (reads p)"
  by (simp add: invalidateQueries_def comp_def if_distrib cong: if_cong)

lemma invalidate_nth:
  "i < length (reads p) \<Longrightarrow>
     reads (invalidateQueries k p) ! i
       = (if key_matches k (reads p ! i) then (reads p ! i)\<lparr>isInvalidated := True\<rparr>
          else reads p ! i)"
  by (simp add: invalidateQueries_def)

lemma invalidate_length: "length (reads (invalidateQueries k p)) = length (reads p)"
  by (simp add: invalidateQueries_def)

lemma invalidate_controller: "controller (invalidateQueries k p) = controller p"
  by (simp add: invalidateQueries_def)

lemma key_matches_marked: "key_matches k (q\<lparr>isInvalidated := b\<rparr>) = key_matches k q"
  by (simp add: key_matches_def)

lemma reads_onSuccess: "reads (onSuccess cb data p) = map after_three (reads p)"
  by (cases cb)
     (auto simp add: onSuccess_def invalidateQueries_def toast_def Let_def after_three_def
        key_matches_marked)

text \<open>
  C9, as stated, fails. On the results dashboard a successful re-analysis resets the
  controller: the session id and the stored bundle of the page are not what they were,
  and the form replaces the dashboard. And the cached visibility series, whose key
  begins with \<^verbatim>\<open>"main-visibility-history"\<close>, is matched by none of the three keys that
  are invalidated and stays unmarked.
\<close>

theorem reanalyze_changes_controller:
  "controller (reanalyze_succeeds reanalyze_reply page_with_results)
     \<noteq> controller page_with_results
   \<and> selectedSessionId (controller (reanalyze_succeeds reanalyze_reply page_with_results)) = None
   \<and> analysisResults (controller (reanalyze_succeeds reanalyze_reply page_with_results)) = Null
   \<and> rendered (controller page_with_results) = [ResultsPanel]
   \<and> rendered (controller (reanalyze_succeeds reanalyze_reply page_with_results)) = [FormPanel]
   \<and> reads (reanalyze_succeeds reanalyze_reply page_with_results) ! 3
       = \<lparr>queryKey = [''main-visibility-history'', ''Acme'', [], ''false''],
          isInvalidated = False\<rparr>"
  by (simp add: reanalyze_succeeds_def onSuccess_def invalidateQueries_def toast_def
      page_with_results_def fresh_def key_matches_def handleNewAnalysis_def panel_defs Let_def)

text \<open>
  C9, amended. A successful re-analysis keeps the cached reads and their keys, marks
  every read of the prompts' history (key beginning with \<^verbatim>\<open>"same-prompts-history"\<close>) and
  of the sidebar's recent sessions (\<^verbatim>\<open>"recent-analyses"\<close>) as invalidated, and leaves
  every read outside the three groups as it was; what it does to the visibility series
  is not stated. It calls \<^verbatim>\<open>onReanalyzeStart\<close> if the prop is given: the controller's
  state after it is what the callback makes of it, and is unchanged without a callback.
  As the results dashboard wires it, the callback is the reset \<^verbatim>\<open>handleNewAnalysis\<close>:
  session id and bundle are cleared and the form is shown.
\<close>

theorem reanalyze_invalidates_and_resets:
  "map queryKey (reads (onSuccess cb data p)) = map queryKey (reads p)
   \<and> (\<forall>i < length (reads p).
        (key_matches [''same-prompts-history''] (reads p ! i)
           \<or> key_matches [''recent-analyses''] (reads p ! i)
         \<longrightarrow> isInvalidated (reads (onSuccess cb data p) ! i))
        \<and> (\<not> in_a_group (reads p ! i)
         \<longrightarrow> reads (onSuccess cb data p) ! i = reads p ! i))
   \<and> controller (onSuccess None data p) = controller p
   \<and> controller (onSuccess (Some f) data p) = f (controller p)
   \<and> controller (reanalyze_succeeds data p) = handleNewAnalysis (controller p)
   \<and> selectedSessionId (controller (reanalyze_succeeds data p)) = None
   \<and> analysisResults (controller (reanalyze_succeeds data p)) = Null
   \<and> rendered (controller (reanalyze_succeeds data p)) = [FormPanel]"
proof (intro conjI allI impI)
  show "map queryKey (reads (onSuccess cb data p)) = map queryKey (reads p)"
    by (simp add: reads_onSuccess after_three_def comp_def if_distrib cong: if_cong)
next
  fix i
  assume "i < length (reads p)"
    and "key_matches [''same-prompts-history''] (reads p ! i)
         \<or> key_matches [''recent-analyses''] (reads p ! i)"
  then show "isInvalidated (reads (onSuccess cb data p) ! i)"
    by (auto simp add: reads_onSuccess after_three_def)
next
  fix i
  assume "i < length (reads p)" and "\<not> in_a_group (reads p ! i)"
  then show "reads (onSuccess cb data p) ! i = reads p ! i"
    by (simp add: reads_onSuccess after_three_def in_a_group_def group_keys_def)
next
  show "controller (onSuccess None data p) = controller p"
    by (simp add: onSuccess_def invalidateQueries_def toast_def Let_def)
next
  show "controller (onSuccess (Some f) data p) = f (controller p)"
    by (simp add: onSuccess_def invalidateQueries_def toast_def Let_def)
next
  show "controller (reanalyze_succeeds data p) = handleNewAnalysis (controller p)"
    by (simp add: reanalyze_succeeds_def onSuccess_def invalidateQueries_def toast_def Let_def)
next
  show "selectedSessionId (controller (reanalyze_succeeds data p)) = None"
    and "analysisResults (controller (reanalyze_succeeds data p)) = Null"
    and "rendered (controller (reanalyze_succeeds data p)) = [FormPanel]"
    by (simp_all add: reanalyze_succeeds_def onSuccess_def invalidateQueries_def toast_def
        Let_def handleNewAnalysis_def panel_defs)
qed

theorem reanalyze_invalidates_and_resets_witness:
  "map isInvalidated (reads (reanalyze_succeeds reanalyze_reply page_with_results)) ! 1
   \<and> map isInvalidated (reads (reanalyze_succeeds reanalyze_reply page_with_results)) ! 4
   \<and> reads (reanalyze_succeeds reanalyze_reply page_with_results) ! 0 = fresh [''brands'']
   \<and> rendered (controller (reanalyze_succeeds reanalyze_reply page_with_results)) = [FormPanel]"
  using reanalyze_invalidates_and_resets
    [of "Some handleNewAnalysis" reanalyze_reply page_with_results handleNewAnalysis]
  by (simp add: reanalyze_succeeds_def onSuccess_def invalidateQueries_def toast_def
      page_with_results_def fresh_def key_matches_def handleNewAnalysis_def panel_defs Let_def
      in_a_group_def group_keys_def)

section \<open>Properties of the polling controller\<close>

lemmas progress_defs =
  run_progress_def mount_def commit_def schedule_def refetchInterval_def status_enabled_def
  results_enabled_def is_completed_def hasError_def is_set_def or_else_def progress_value_def

subsection \<open>The record of a run follows its state\<close>

lemma gated_append:
  "gated snap err (xs @ ys) =
     (gated snap err xs \<and> gated (foldl snapshot_after snap xs) (foldl surfaced_after err xs) ys)"
  by (induction xs arbitrary: snap err) auto

lemma gated_nth:
  "gated snap err tr \<Longrightarrow> i < length tr \<Longrightarrow> tr ! i = ResultsRequested \<Longrightarrow>
     is_completed (foldl snapshot_after snap (take i tr))
     \<and> \<not> foldl surfaced_after err (take i tr)"
proof (induction tr arbitrary: snap err i)
  case Nil
  then show ?case by simp
next
  case (Cons h tr)
  show ?case
  proof (cases i)
    case 0
    with Cons.prems show ?thesis by simp
  next
    case (Suc j)
    with Cons.prems Cons.IH [of "snapshot_after snap h" "surfaced_after err h" j]
    show ?thesis by simp
  qed
qed

lemma tracked_mount: "tracked (mount sid)"
  by (simp add: tracked_def mount_def latest_snapshot_def error_surfaced_def)

lemma tracked_step: "tracked st \<Longrightarrow> tracked (progress_step sid st ev)"
proof (cases ev)
  case (StatusSettled tag out)
  assume "tracked st"
  then show ?thesis using StatusSettled
    by (cases out)
       (auto simp add: tracked_def commit_def schedule_def Let_def latest_snapshot_def
          error_surfaced_def gated_append results_enabled_def refetchInterval_def
          split: option.splits js_value.splits if_splits)
next
  case (ResultsSettled tag out)
  assume "tracked st"
  then show ?thesis using ResultsSettled
    by (cases out)
       (auto simp add: tracked_def commit_def Let_def latest_snapshot_def
          error_surfaced_def gated_append results_enabled_def
          split: option.splits js_value.splits if_splits)
next
  case RetryClick
  assume "tracked st"
  then show ?thesis using RetryClick
    by (auto simp add: tracked_def commit_def Let_def latest_snapshot_def
          error_surfaced_def gated_append results_enabled_def is_completed_def
          split: option.splits js_value.splits if_splits)
qed

lemma tracked_run: "tracked (run_progress sid evs)"
  unfolding run_progress_def
  by (induction evs rule: rev_induct) (simp_all add: tracked_mount tracked_step)

lemma statusData_commit: "statusData (commit sid old new) = statusData new"
  by (simp add: commit_def Let_def)

lemma statusData_schedule: "statusData (schedule sid st) = statusData st"
  by (simp add: schedule_def split: option.splits)

lemma statusData_step:
  "ev \<noteq> RetryClick \<Longrightarrow> statusData (progress_step sid st ev) = accept sid (statusData st) ev"
proof (cases ev)
  case (StatusSettled tag out)
  then show ?thesis by (cases out) (simp_all add: statusData_commit statusData_schedule)
next
  case (ResultsSettled tag out)
  then show ?thesis by (cases out) (simp_all add: statusData_commit)
next
  case RetryClick
  assume "ev \<noteq> RetryClick"
  with RetryClick show ?thesis by simp
qed

lemma statusData_step_since_retry:
  "statusData (progress_step sid st ev) = accept_since_retry sid (statusData st) ev"
proof (cases ev)
  case (StatusSettled tag out)
  then show ?thesis by (cases out) (simp_all add: statusData_commit statusData_schedule)
next
  case (ResultsSettled tag out)
  then show ?thesis by (cases out) (simp_all add: statusData_commit)
next
  case RetryClick
  then show ?thesis by (simp add: statusData_commit)
qed

lemma statusData_run:
  "statusData (run_progress sid evs) = accepted_since_retry sid evs"
proof (induction evs rule: rev_induct)
  case Nil
  show ?case by (simp add: run_progress_def accepted_since_retry_def mount_def)
next
  case (snoc ev evs)
  then show ?case
    using statusData_step_since_retry [of sid "run_progress sid evs" ev]
    by (simp add: run_progress_def accepted_since_retry_def)
qed

lemma accept_since_retry_no_retry:
  "ev \<noteq> RetryClick \<Longrightarrow> accept_since_retry sid acc ev = accept sid acc ev"
  by (cases "(sid, acc, ev)" rule: accept.cases) simp_all

lemma accepted_without_retry:
  "RetryClick \<notin> set evs \<Longrightarrow> accepted_since_retry sid evs = last_accepted sid evs"
proof (induction evs rule: rev_induct)
  case Nil
  show ?case by (simp add: accepted_since_retry_def last_accepted_def)
next
  case (snoc ev evs)
  then have "accepted_since_retry sid evs = last_accepted sid evs" and "ev \<noteq> RetryClick"
    by auto
  then show ?case
    by (simp add: accepted_since_retry_def last_accepted_def accept_since_retry_no_retry)
qed

subsection \<open>Retries\<close>

lemma fetch_status_all_rejected:
  assumes "\<And>k. \<exists>e. queryFn k = Rejected e"
  shows "fetch_status queryFn = (queryFn 3, 4)"
proof -
  obtain e0 e1 e2 e3 where "queryFn 0 = Rejected e0" "queryFn 1 = Rejected e1"
    "queryFn 2 = Rejected e2" "queryFn 3 = Rejected e3"
    using assms by metis
  then show ?thesis
    by (simp add: fetch_status_def retryer.simps [of _ _ _ 0] retryer.simps [of _ _ _ "Suc 0"]
        retryer.simps [of _ _ _ "Suc (Suc 0)"] retryer.simps [of _ _ _ "Suc (Suc (Suc 0))"]
        eval_nat_numeral)
qed

text \<open>
  C3, as stated, fails. Against a status endpoint that rejects every call, the fetch of
  the status query makes four calls, not three, before it rejects; and after three
  rejected calls the controller has not failed: if the fourth call finds the job
  running, the fetch succeeds and no error is shown.
\<close>

theorem status_fetch_makes_four_calls:
  "snd (fetch_status always_rejecting) \<noteq> 3
   \<and> fetch_status always_rejecting = (Rejected ''Failed to fetch'', 4)
   \<and> fetch_status rejecting_thrice = (Succeeded (status_body ''s3'' ''running'' 10), 4)
   \<and> showError (run_progress ''s3'' [StatusSettled ''s3'' (fst (fetch_status rejecting_thrice))]
        :: string progress_state) = False"
  by (simp add: fetch_status_def retryer.simps always_rejecting_def rejecting_thrice_def
      progress_defs Let_def)

text \<open>
  C3, amended. Against a status endpoint that rejects every call, the first fetch of the
  status query makes exactly four calls (the first and the three retries of
  \<^verbatim>\<open>retry: 3\<close>) and rejects with the error of the fourth. The component then sets
  \<^verbatim>\<open>showError\<close>, shows the toast "Connection Error" and renders its error card; the
  status query is disabled, and nothing further is requested or scheduled.
\<close>

theorem status_fetch_fails_after_four_calls:
  assumes "\<And>k. \<exists>e. queryFn k = Rejected e" and "sid \<noteq> []"
  shows "snd (fetch_status queryFn) = 4
     \<and> fst (fetch_status queryFn) = queryFn 3
     \<and> showError (run_progress sid [StatusSettled sid (fst (fetch_status queryFn))])
     \<and> hasError (run_progress sid [StatusSettled sid (fst (fetch_status queryFn))])
     \<and> \<not> status_enabled sid
           (showError (run_progress sid [StatusSettled sid (fst (fetch_status queryFn))]))
     \<and> (\<exists>m. happened (run_progress sid [StatusSettled sid (fst (fetch_status queryFn))])
             = [StatusRequested, Toast ''Connection Error'' m])"
proof -
  obtain e where e: "queryFn 3 = Rejected e" using assms(1) by blast
  have f: "fetch_status queryFn = (Rejected e, 4)"
    using fetch_status_all_rejected [OF assms(1)] e by simp
  show ?thesis using assms(2)
    by (simp add: f e progress_defs Let_def)
qed

theorem status_fetch_fails_after_four_calls_witness:
  "snd (fetch_status always_rejecting) = 4
   \<and> showError (run_progress ''s3'' [StatusSettled ''s3'' (fst (fetch_status always_rejecting))]
        :: string progress_state)
   \<and> happened (run_progress ''s3'' [StatusSettled ''s3'' (fst (fetch_status always_rejecting))]
        :: string progress_state)
       = [StatusRequested, Toast ''Connection Error'' ''Failed to fetch'']"
proof -
  have h: "\<And>k. \<exists>e. always_rejecting k = Rejected e"
    by (simp add: always_rejecting_def)
  have n: "''s3'' \<noteq> []" by simp
  have f: "fetch_status always_rejecting = (Rejected ''Failed to fetch'', 4)"
    by (simp add: fetch_status_def retryer.simps always_rejecting_def)
  show ?thesis
    using status_fetch_fails_after_four_calls [OF h n, where ?'b = string]
    by (simp add: f progress_defs Let_def)
qed

lemma errored_status_step:
  assumes "status d = ''error''" and "sid \<noteq> []" and "\<not> showError st"
    and "resultsError st = None"
  shows "\<not> showError (progress_step sid st (StatusSettled sid (Succeeded d)))
     \<and> resultsError (progress_step sid st (StatusSettled sid (Succeeded d))) = None
     \<and> happened (progress_step sid st (StatusSettled sid (Succeeded d)))
        = happened st @ [StatusAccepted d, StatusScheduled 2000]"
  using assms by (simp add: progress_defs Let_def split: option.splits js_value.splits)

text \<open>
  C4, at a failing input: the status fetch succeeds with a snapshot whose \<^verbatim>\<open>status\<close> is
  \<^verbatim>\<open>"error"\<close>, three times in a row. \<^verbatim>\<open>refetchInterval\<close> stops the timer for
  \<^verbatim>\<open>"completed"\<close> and for \<^verbatim>\<open>showError\<close> only, and no effect reads the snapshot's
  \<^verbatim>\<open>status\<close> or \<^verbatim>\<open>error\<close>: each time the component takes the snapshot, shows no error,
  and sets the timer for the next status fetch in 2000 ms.
\<close>

theorem errored_status_keeps_polling:
  "refetchInterval (Some errored_snapshot) False = Some 2000
   \<and> showError (run_progress ''s7'' errored_polls) = False
   \<and> hasError (run_progress ''s7'' errored_polls) = False
   \<and> happened (run_progress ''s7'' errored_polls)
       = [StatusRequested, StatusAccepted errored_snapshot, StatusScheduled 2000,
          StatusAccepted errored_snapshot, StatusScheduled 2000,
          StatusAccepted errored_snapshot, StatusScheduled 2000]"
  by (simp add: errored_polls_def errored_snapshot_def progress_defs Let_def eval_nat_numeral)

text \<open>
  C7, as stated, fails. A snapshot at 55 percent is accepted for the session, the next
  status fetch is rejected, the error card is shown, and the user clicks "Retry
  Connection": \<^verbatim>\<open>handleRetry\<close> removes the status query from the cache. The component is
  polling again and, until the next snapshot arrives, displays 0, although the snapshot
  most recently accepted for the session has 55.
\<close>

theorem retry_clears_progress:
  "hasError (run_progress ''s1'' (take 2 retried)) = True
   \<and> progress_value (run_progress ''s1'' retried) = 0
   \<and> hasError (run_progress ''s1'' retried) = False
   \<and> showError (run_progress ''s1'' retried) = False
   \<and> last_accepted ''s1'' retried = Some (status_body ''s1'' ''running'' 55)
   \<and> progress (status_body ''s1'' ''running'' 55) = 55"
  by (simp add: retried_def last_accepted_def status_body_def progress_defs Let_def)

text \<open>
  C7, amended. After any run, the progress the component displays is the progress of the
  snapshot most recently accepted for the session since the component was mounted or its
  retry button was last clicked, and 0 when none has been accepted since. In a run
  without a click on the retry button that is the snapshot most recently accepted at all.
  A snapshot that is accepted is displayed whatever was displayed before, also when its
  progress is lower; a status fetched for another session id changes nothing.
\<close>

theorem progress_shows_latest_snapshot:
  "progress_value (run_progress sid evs)
     = (case accepted_since_retry sid evs of None \<Rightarrow> 0 | Some d \<Rightarrow> progress d)
   \<and> (RetryClick \<notin> set evs \<longrightarrow> accepted_since_retry sid evs = last_accepted sid evs)
   \<and> progress_value (progress_step sid st (StatusSettled sid (Succeeded d))) = progress d
   \<and> (tag \<noteq> sid \<longrightarrow> progress_step sid st (StatusSettled tag out) = st)"
proof (intro conjI impI)
  show "progress_value (run_progress sid evs)
     = (case accepted_since_retry sid evs of None \<Rightarrow> 0 | Some d \<Rightarrow> progress d)"
    by (simp add: progress_value_def statusData_run)
next
  assume "RetryClick \<notin> set evs"
  then show "accepted_since_retry sid evs = last_accepted sid evs"
    by (rule accepted_without_retry)
next
  show "progress_value (progress_step sid st (StatusSettled sid (Succeeded d))) = progress d"
    by (simp add: progress_value_def statusData_commit statusData_schedule)
next
  assume "tag \<noteq> sid"
  then show "progress_step sid st (StatusSettled tag out) = st"
    by (cases out) simp_all
qed

theorem progress_shows_latest_snapshot_witness:
  "progress_value (run_progress ''s1'' scenario1) = 30
   \<and> accepted_since_retry ''s1'' scenario1 = Some (status_body ''s1'' ''running'' 30)
   \<and> last_accepted ''s1'' scenario1 = Some (status_body ''s1'' ''running'' 30)
   \<and> progress_step ''s1'' (mount ''s1'' :: string progress_state)
         (StatusSettled ''s0'' (Succeeded (status_body ''s0'' ''running'' 90)))
       = mount ''s1''"
  using progress_shows_latest_snapshot
    [of "''s1''" scenario1 "mount ''s1''" errored_snapshot "''s0''"
        "Succeeded (status_body ''s0'' ''running'' 90)"]
  by (simp add: scenario1_def last_accepted_def accepted_since_retry_def status_body_def
      progress_defs Let_def)

text \<open>
  C10. The results query is enabled only for a non-empty session id, a completed status
  and an unset error flag; and in the record of any run of the component, wherever the
  results are requested, the latest snapshot taken before is a completed one and no
  failure is surfaced.
\<close>

theorem results_fetch_gated:
  "(results_enabled sid data err \<longrightarrow> sid \<noteq> [] \<and> is_completed data \<and> \<not> err)
   \<and> (\<forall>i < length (happened (run_progress sid evs)).
        happened (run_progress sid evs) ! i = ResultsRequested \<longrightarrow>
          is_completed (latest_snapshot (take i (happened (run_progress sid evs))))
          \<and> \<not> error_surfaced (take i (happened (run_progress sid evs))))"
proof (intro conjI impI allI)
  assume "results_enabled sid data err"
  then show "sid \<noteq> []" "is_completed data" "\<not> err" by (simp_all add: results_enabled_def)
next
  fix i
  assume "i < length (happened (run_progress sid evs))"
    and "happened (run_progress sid evs) ! i = ResultsRequested"
  moreover have "gated None False (happened (run_progress sid evs))"
    using tracked_run [of sid evs] by (simp add: tracked_def)
  ultimately show "is_completed (latest_snapshot (take i (happened (run_progress sid evs))))"
    and "\<not> error_surfaced (take i (happened (run_progress sid evs)))"
    using gated_nth by (auto simp add: latest_snapshot_def error_surfaced_def)
qed

theorem results_fetch_gated_witness:
  "happened (run_progress ''s1'' scenario1_completed) ! 8 = ResultsRequested
   \<and> is_completed (latest_snapshot (take 8 (happened (run_progress ''s1'' scenario1_completed))))
   \<and> \<not> error_surfaced (take 8 (happened (run_progress ''s1'' scenario1_completed)))
   \<and> happened (run_progress ''s1'' scenario1_completed) ! 9 = OnComplete ''foobar''"
  using results_fetch_gated [of "''s1''" None False scenario1_completed]
  by (simp add: scenario1_completed_def scenario1_def status_body_def progress_defs Let_def
      latest_snapshot_def error_surfaced_def)

end
